theory Spec2Isabelle
  imports Main "HOL-Library.Word" "HOL-Library.Sublist"
begin

section \<open>JavaScript values\<close>

text \<open>
  A JavaScript string is a sequence of UTF-16 code units: \<open>s.length\<close> counts them and
  \<open>s.slice(0, n)\<close> keeps the first \<open>n\<close> of them. The literals of the source that are
  plain ASCII are written through \<open>ascii\<close>.
\<close>

type_synonym code_unit = "16 word"
type_synonym jsstring = "code_unit list"

definition ascii :: "string \<Rightarrow> jsstring" where
  "ascii s = map of_char s"

text \<open>
  The values that travel in messages. An object literal is the list of its properties,
  in the order the source writes them; reading a property that is not there gives
  \<open>undefined\<close>.
\<close>

datatype jsval = JUndefined | JNull | JBool bool | JNum int | JStr jsstring

type_synonym jsobj = "(string \<times> jsval) list"

definition get_prop :: "jsobj \<Rightarrow> string \<Rightarrow> jsval" where
  "get_prop m k = (case map_of m k of None \<Rightarrow> JUndefined | Some v \<Rightarrow> v)"

text \<open>Truthiness, as \<open>||\<close> and \<open>if\<close> test it.\<close>

fun truthy :: "jsval \<Rightarrow> bool" where
  "truthy JUndefined = False"
| "truthy JNull = False"
| "truthy (JBool b) = b"
| "truthy (JNum n) = (n \<noteq> 0)"
| "truthy (JStr s) = (s \<noteq> [])"

section \<open>py-worker.js: the output capper\<close>

text \<open>
  The marker appended on truncation: a line feed, U+2026 (horizontal ellipsis), the text
  \<open>[output truncated]\<close> and a line feed.
\<close>

definition marker :: jsstring where
  "marker = [0x0A, 0x2026] @ ascii ''[output truncated]'' @ [0x0A]"

text \<open>
  \<open>capJoin(chunks, capBytes)\<close>: the \<open>for\<close> loop over the chunks with the accumulator
  \<open>out\<close>. The first chunk that would take \<open>out\<close> past \<open>capBytes\<close> is cut with
  \<open>chunk.slice(0, Math.max(0, capBytes - out.length))\<close>, the marker is appended and the
  function returns at once. \<open>capBytes\<close> is a JavaScript number; the integers are modelled.
\<close>

fun capJoin_loop :: "jsstring \<Rightarrow> jsstring list \<Rightarrow> int \<Rightarrow> jsstring" where
  "capJoin_loop out [] capBytes = out"
| "capJoin_loop out (chunk # chunks) capBytes =
     (if int (length out + length chunk) > capBytes
      then (let remaining = max 0 (capBytes - int (length out))
            in (out @ take (nat remaining) chunk) @ marker)
      else capJoin_loop (out @ chunk) chunks capBytes)"

definition capJoin :: "jsstring list \<Rightarrow> int \<Rightarrow> jsstring" where
  "capJoin chunks capBytes = capJoin_loop [] chunks capBytes"

section \<open>py-worker.js: the result of a run\<close>

text \<open>
  What the message handler reads of \<open>res\<close>: \<open>!!res.ok\<close>, and \<open>res.stdout\<close> and
  \<open>res.stderr\<close>, where the empty string also stands for a read that is not truthy
  (neither pushes a chunk).
\<close>

record py_result =
  ok :: bool
  stdout :: jsstring
  stderr :: jsstring

text \<open>
  The chunks given to \<open>capJoin\<close>: \<open>res.stdout\<close> if it is not empty, then \<open>res.stderr\<close>
  if it is not empty.
\<close>

definition run_chunks :: "py_result \<Rightarrow> jsstring list" where
  "run_chunks res =
     (if stdout res \<noteq> [] then [stdout res] else []) @
     (if stderr res \<noteq> [] then [stderr res] else [])"

text \<open>\<open>capBytes ?? 16000\<close>: the default replaces \<open>undefined\<close> and \<open>null\<close> only.\<close>

definition nullish_cap :: "int option \<Rightarrow> int" where
  "nullish_cap capBytes = (case capBytes of None \<Rightarrow> 16000 | Some n \<Rightarrow> n)"

text \<open>
  The message posted after a run that returned:
  \<open>{ type: "result", ok: !!res.ok, output: output || "(no output)" }\<close>.
\<close>

definition result_message :: "py_result \<Rightarrow> int option \<Rightarrow> jsobj" where
  "result_message res capBytes =
     (let output = capJoin (run_chunks res) (nullish_cap capBytes)
      in [(''type'', JStr (ascii ''result'')),
          (''ok'', JBool (ok res)),
          (''output'', JStr (if output \<noteq> [] then output else ascii ''(no output)''))])"

section \<open>py-worker.js: the Python helper\<close>


text \<open>
  A top-level namespace maps names to values; the only value the helper puts in one is a
  string. The interpreter takes the code, the namespace for globals and locals, and its
  own state (modules and everything else that outlives a call). It gives the outcome,
  the namespace as the code left it, and its own state afterwards.
\<close>

datatype 'v pyval = PyStr string | PyOther 'v




text \<open>The dictionary the helper returns: \<open>{"ok": ..., "stdout": ..., "stderr": ...}\<close>.\<close>

record helper_dict =
  dict_ok :: bool
  dict_stdout :: jsstring
  dict_stderr :: jsstring



section \<open>py-worker.js: the message handler\<close>

text \<open>The messages of the \<open>init\<close> branch: \<open>{ type: "ready" }\<close> and \<open>{ type: "fatal", error }\<close>.\<close>

definition ready_message :: jsobj where
  "ready_message = [(''type'', JStr (ascii ''ready''))]"

definition fatal_message :: "jsstring \<Rightarrow> jsobj" where
  "fatal_message e = [(''type'', JStr (ascii ''fatal'')), (''error'', JStr e)]"


text \<open>
  \<open>.toJs()\<close> on the dictionary. \<open>initPyodide\<close> loads Pyodide 0.25.1, whose \<open>toJs\<close>
  turns a Python dictionary into a JavaScript \<open>Map\<close> unless it is given a
  \<open>dict_converter\<close>, and the call gives none. The three entries are the entries of the
  \<open>Map\<close>.
\<close>

datatype js_map = JsMap "(string \<times> jsval) list"

definition toJs :: "helper_dict \<Rightarrow> js_map" where
  "toJs d =
     JsMap [(''ok'', JBool (dict_ok d)),
            (''stdout'', JStr (dict_stdout d)),
            (''stderr'', JStr (dict_stderr d))]"

text \<open>
  \<open>res.ok\<close>, \<open>res.stdout\<close> and \<open>res.stderr\<close> read properties, and a \<open>Map\<close> keeps its
  entries apart from its properties: it has none of these three names, so each read is
  \<open>undefined\<close>. \<open>!!undefined\<close> is \<open>false\<close>, and \<open>if (undefined)\<close> pushes no chunk.
\<close>

definition read_result :: "js_map \<Rightarrow> py_result" where
  "read_result res = (case res of JsMap entries \<Rightarrow> \<lparr>ok = False, stdout = [], stderr = []\<rparr>)"


section \<open>script.js: the page and the browser around it\<close>

text \<open>
  \<open>setStatus(kind, text)\<close> gives the status pill one of three classes: \<open>status-ready\<close>
  for the kind \<open>ready\<close>, \<open>status-error\<close> for \<open>error\<close>, \<open>status-loading\<close> for anything
  else.
\<close>

datatype status_class = StatusReady | StatusError | StatusLoading

text \<open>
  What \<open>setOutput\<close> writes into the output element, by the place that writes it:
  \<^item> \<open>Placeholder\<close>: \<open>Run your code to see output here...\<close>
  \<^item> \<open>PleaseWrite\<close>: \<open>Please write some code first.\<close>
  \<^item> \<open>RunningText\<close>: \<open>Running...\<close>
  \<^item> \<open>TimedOut ms\<close>: \<open>Timed out after ${timeoutMs}ms. (Try a longer timeout or optimize the code.)\<close>
  \<^item> \<open>Stopped\<close>: \<open>Stopped.\<close>
  \<^item> \<open>FatalText e\<close>: \<open>String(msg.error || "Unknown error")\<close>
  \<^item> \<open>ResultText v\<close>: \<open>msg.output\<close> of a result message
  \<^item> \<open>CrashText e\<close>: \<open>String(err?.message || err)\<close> of a worker error event
\<close>

datatype output_text =
    Placeholder
  | PleaseWrite
  | RunningText
  | TimedOut int
  | Stopped
  | FatalText jsval
  | ResultText jsval
  | CrashText jsstring

text \<open>
  The state: the three variables of the script (\<open>worker\<close>, \<open>running\<close>, \<open>runTimeout\<close>),
  the elements of the page it reads and writes, and what the browser keeps for it.
  \<^item> A worker is named by its number of creation; \<open>worker\<close> is \<open>null\<close> or the current one.
    \<open>terminated\<close> lists the workers \<open>terminate()\<close> was called on, \<open>posted\<close> every
    \<open>postMessage\<close> of the script with the worker it went to.
  \<^item> \<open>timers\<close> are the timeouts set and neither fired nor cleared, each with the
    \<open>timeoutMs\<close> its callback closed over. Timer ids are positive.
  \<^item> The value of a select element is the decimal text of a number, or empty (\<open>None\<close>).
  \<^item> \<open>shown\<close> is the history of \<open>setOutput\<close>, oldest first.
\<close>

record session =
  worker :: "nat option"
  running :: bool
  runTimeout :: "nat option"
  codeEditor :: jsstring
  timeoutSelect :: "int option"
  capSelect :: "int option"
  outputEl :: output_text
  pyStatus_class :: status_class
  pyStatus_text :: jsstring
  runBtn_disabled :: bool
  stopBtn_disabled :: bool
  workers_created :: nat
  terminated :: "nat list"
  posted :: "(nat \<times> jsobj) list"
  timers :: "(nat \<times> int) list"
  timers_created :: nat
  shown :: "output_text list"

definition setOutput :: "output_text \<Rightarrow> session \<Rightarrow> session" where
  "setOutput t s = s\<lparr>outputEl := t, shown := shown s @ [t]\<rparr>"

definition setStatus :: "string \<Rightarrow> jsstring \<Rightarrow> session \<Rightarrow> session" where
  "setStatus kind t s =
     s\<lparr>pyStatus_class :=
         (if kind = ''ready'' then StatusReady
          else if kind = ''error'' then StatusError
          else StatusLoading),
       pyStatus_text := t\<rparr>"

definition postMessage :: "nat \<Rightarrow> jsobj \<Rightarrow> session \<Rightarrow> session" where
  "postMessage w m s = s\<lparr>posted := posted s @ [(w, m)]\<rparr>"

definition setTimeout :: "int \<Rightarrow> session \<Rightarrow> nat \<times> session" where
  "setTimeout ms s =
     (let t = Suc (timers_created s)
      in (t, s\<lparr>timers := timers s @ [(t, ms)], timers_created := t\<rparr>))"

definition clearTimeout :: "nat \<Rightarrow> session \<Rightarrow> session" where
  "clearTimeout t s = s\<lparr>timers := filter (\<lambda>p. fst p \<noteq> t) (timers s)\<rparr>"

section \<open>script.js: worker management\<close>

definition init_message :: jsobj where
  "init_message = [(''type'', JStr (ascii ''init''))]"

text \<open>\<open>{ type: "run", code, capBytes }\<close>\<close>

definition run_request :: "jsstring \<Rightarrow> int \<Rightarrow> jsobj" where
  "run_request code capBytes =
     [(''type'', JStr (ascii ''run'')), (''code'', JStr code), (''capBytes'', JNum capBytes)]"

text \<open>
  \<open>ensureWorker()\<close>: the current worker if there is one; otherwise a new worker with the
  two handlers below, the status Loading, both buttons disabled and \<open>init\<close> posted.
\<close>

definition ensureWorker :: "session \<Rightarrow> nat \<times> session" where
  "ensureWorker s =
     (case worker s of
        Some w \<Rightarrow> (w, s)
      | None \<Rightarrow>
         (let w = workers_created s;
              s1 = s\<lparr>worker := Some w, workers_created := Suc w\<rparr>;
              s2 = setStatus ''loading'' (ascii ''Loading Python'' @ [0x2026]) s1;
              s3 = s2\<lparr>runBtn_disabled := True, stopBtn_disabled := True\<rparr>
          in (w, postMessage w init_message s3)))"

definition killWorker :: "session \<Rightarrow> session" where
  "killWorker s =
     (case worker s of
        Some w \<Rightarrow> s\<lparr>terminated := w # terminated s, worker := None\<rparr>
      | None \<Rightarrow> s)"

definition startRun :: "session \<Rightarrow> session" where
  "startRun s = s\<lparr>running := True, stopBtn_disabled := False, runBtn_disabled := True\<rparr>"

definition finishRun :: "session \<Rightarrow> session" where
  "finishRun s =
     (let s1 = s\<lparr>running := False, stopBtn_disabled := True, runBtn_disabled := False\<rparr>
      in case runTimeout s1 of
           None \<Rightarrow> s1
         | Some t \<Rightarrow> (clearTimeout t s1)\<lparr>runTimeout := None\<rparr>)"

text \<open>
  \<open>worker.onmessage\<close>, the same function on every worker created: it reads \<open>msg.type\<close>
  and nothing else of where the message comes from.
\<close>

definition worker_onmessage :: "jsobj \<Rightarrow> session \<Rightarrow> session" where
  "worker_onmessage msg s =
     (if get_prop msg ''type'' = JStr (ascii ''ready'') then
        (setStatus ''ready'' (ascii ''Python ready'') s)\<lparr>runBtn_disabled := False\<rparr>
      else if get_prop msg ''type'' = JStr (ascii ''fatal'') then
        (let s1 = setStatus ''error'' (ascii ''Python failed to load'') s;
             e = get_prop msg ''error'';
             s2 = setOutput (FatalText (if truthy e then e else JStr (ascii ''Unknown error''))) s1
         in s2\<lparr>runBtn_disabled := True, stopBtn_disabled := True\<rparr>)
      else if get_prop msg ''type'' = JStr (ascii ''result'') then
        setOutput (ResultText (get_prop msg ''output'')) (finishRun s)
      else s)"

definition worker_onerror :: "jsstring \<Rightarrow> session \<Rightarrow> session" where
  "worker_onerror err s =
     setOutput (CrashText err) (setStatus ''error'' (ascii ''Worker crashed'') (finishRun s))"

section \<open>script.js: run and stop\<close>

text \<open>
  \<open>String.prototype.trim\<close> removes the white space and line terminators of ECMAScript
  at both ends; \<open>!code.trim()\<close> holds when nothing is left.
\<close>

definition is_space :: "code_unit \<Rightarrow> bool" where
  "is_space c =
     (c \<in> set [0x09, 0x0A, 0x0B, 0x0C, 0x0D, 0x20, 0xA0, 0x1680, 0x2028, 0x2029,
                0x202F, 0x205F, 0x3000, 0xFEFF]
      \<or> (0x2000 \<le> c \<and> c \<le> 0x200A))"

definition trim :: "jsstring \<Rightarrow> jsstring" where
  "trim s = rev (dropWhile is_space (rev (dropWhile is_space s)))"

text \<open>
  The callback of the hard timeout, with the \<open>timeoutMs\<close> it closed over: it kills the
  worker and creates the next one.
\<close>

definition on_timeout :: "int \<Rightarrow> session \<Rightarrow> session" where
  "on_timeout timeoutMs s =
     (let s1 = setOutput (TimedOut timeoutMs) s;
          s2 = setStatus ''ready'' (ascii ''Python ready'') s1;
          s3 = killWorker s2;
          s4 = snd (ensureWorker s3)
      in finishRun s4)"

definition runCode :: "session \<Rightarrow> session" where
  "runCode s =
     (let code = codeEditor s in
      if trim code = [] then setOutput PleaseWrite s
      else
        (let (w, s1) = ensureWorker s;
             timeoutMs = (case timeoutSelect s of None \<Rightarrow> 3000 | Some n \<Rightarrow> n);
             capBytes = (case capSelect s of None \<Rightarrow> 16000 | Some n \<Rightarrow> n);
             s2 = startRun s1;
             s3 = setOutput RunningText s2;
             (t, s4) = setTimeout timeoutMs s3;
             s5 = s4\<lparr>runTimeout := Some t\<rparr>
         in postMessage w (run_request code capBytes) s5))"

definition stopCode :: "session \<Rightarrow> session" where
  "stopCode s =
     (if \<not> running s then s
      else
        (let s1 = setOutput Stopped s;
             s2 = setStatus ''ready'' (ascii ''Python ready'') s1;
             s3 = killWorker s2;
             s4 = snd (ensureWorker s3)
         in finishRun s4))"

text \<open>
  \<open>boot()\<close>, run when the page has loaded: the default snippet (\<open>codeExamples.dictget\<close>,
  given as \<open>snippet\<close>) goes into the editor and the first worker is created.
\<close>

definition boot :: "jsstring \<Rightarrow> session \<Rightarrow> session" where
  "boot snippet s = snd (ensureWorker (setOutput Placeholder (s\<lparr>codeEditor := snippet\<rparr>)))"

text \<open>
  The page before \<open>boot\<close>. The variables start as the script declares them. What the
  markup decides and \<open>boot\<close> overwrites is filled in with what \<open>boot\<close> writes; the two
  select elements start with no value, which gives the defaults 3000 and 16000.
\<close>

definition page :: session where
  "page =
     \<lparr>worker = None, running = False, runTimeout = None,
      codeEditor = [], timeoutSelect = None, capSelect = None,
      outputEl = Placeholder, pyStatus_class = StatusLoading, pyStatus_text = [],
      runBtn_disabled = True, stopBtn_disabled = True,
      workers_created = 0, terminated = [], posted = [],
      timers = [], timers_created = 0, shown = []\<rparr>"

section \<open>script.js: what the browser dispatches\<close>

text \<open>
  The events the handlers of the script are hooked to. The browser decides which of them
  happen and when; what is taken from it:
  \<^item> a disabled button dispatches no click;
  \<^item> a timeout fires at most once, and not after \<open>clearTimeout\<close>;
  \<^item> a worker delivers messages and errors after it was created and not after
    \<open>terminate()\<close>;
  \<^item> the keyboard handler of the editor runs whatever the buttons show.
\<close>

datatype event =
    Edit jsstring
  | SelectTimeout "int option"
  | SelectCap "int option"
  | ClickRun
  | ClickStop
  | ClickClear
  | KeyCtrlEnter
  | TimerFires nat
  | WorkerPosts nat jsobj
  | WorkerFails nat jsstring

fun dispatch :: "event \<Rightarrow> session \<Rightarrow> session" where
  "dispatch (Edit c) s = s\<lparr>codeEditor := c\<rparr>"
| "dispatch (SelectTimeout v) s = s\<lparr>timeoutSelect := v\<rparr>"
| "dispatch (SelectCap v) s = s\<lparr>capSelect := v\<rparr>"
| "dispatch ClickRun s = (if runBtn_disabled s then s else runCode s)"
| "dispatch ClickStop s = (if stopBtn_disabled s then s else stopCode s)"
| "dispatch ClickClear s = setOutput Placeholder s"
| "dispatch KeyCtrlEnter s = runCode s"
| "dispatch (TimerFires t) s =
     (case map_of (timers s) t of
        None \<Rightarrow> s
      | Some ms \<Rightarrow> on_timeout ms (clearTimeout t s))"
| "dispatch (WorkerPosts w m) s =
     (if w < workers_created s \<and> w \<notin> set (terminated s) then worker_onmessage m s else s)"
| "dispatch (WorkerFails w e) s =
     (if w < workers_created s \<and> w \<notin> set (terminated s) then worker_onerror e s else s)"

definition run_events :: "event list \<Rightarrow> session \<Rightarrow> session" where
  "run_events es s = foldl (\<lambda>s e. dispatch e s) s es"

text \<open>
  The reports a run can end with: the output of a result message, the timeout text, the
  stop text. The run requests are the \<open>run\<close> messages among those posted.
\<close>

fun is_outcome :: "output_text \<Rightarrow> bool" where
  "is_outcome (ResultText v) = True"
| "is_outcome (TimedOut ms) = True"
| "is_outcome Stopped = True"
| "is_outcome _ = False"

definition outcomes :: "session \<Rightarrow> output_text list" where
  "outcomes s = filter is_outcome (shown s)"

definition run_requests :: "session \<Rightarrow> (nat \<times> jsobj) list" where
  "run_requests s = filter (\<lambda>p. get_prop (snd p) ''type'' = JStr (ascii ''run'')) (posted s)"

section \<open>Example inputs\<close>

text \<open>
  The session after \<open>boot\<close> with the snippet \<open>print(1)\<close> in the editor and the first
  worker's \<open>ready\<close> message.
\<close>

definition ready_session :: session where
  "ready_session = worker_onmessage ready_message (boot (ascii ''print(1)'') page)"

text \<open>
  The message \<open>result_message\<close> builds, under the default budget, when the three reads
  give \<open>true\<close>, the text \<open>1\<close> and nothing.
\<close>

definition one_printed :: jsobj where
  "one_printed = result_message \<lparr>ok = True, stdout = ascii ''1'', stderr = []\<rparr> (Some 16000)"





section \<open>Properties of the output capper\<close>

lemma length_marker: "length marker = 21"
  by (simp add: marker_def ascii_def)

lemma capJoin_loop_negative:
  "capBytes < 0 \<Longrightarrow>
   capJoin_loop out chunks capBytes = (if chunks = [] then out else out @ marker)"
  by (cases chunks) simp_all

lemma capJoin_loop_budget:
  "0 \<le> capBytes \<Longrightarrow> int (length out) \<le> capBytes \<Longrightarrow>
   capJoin_loop out chunks capBytes =
     (if int (length out + length (concat chunks)) \<le> capBytes
      then out @ concat chunks
      else take (nat capBytes) (out @ concat chunks) @ marker)"
proof (induction chunks arbitrary: out)
  case Nil
  then show ?case by simp
next
  case (Cons chunk chunks)
  show ?case
  proof (cases "int (length out + length chunk) > capBytes")
    case True
    from True Cons.prems have cut: "nat capBytes - length out < length chunk"
      by linarith
    from Cons.prems have rem: "nat (max 0 (capBytes - int (length out))) = nat capBytes - length out"
      by linarith
    from True have over: "\<not> int (length out + length (concat (chunk # chunks))) \<le> capBytes"
      by simp
    have "take (nat capBytes) (out @ concat (chunk # chunks)) =
            out @ take (nat capBytes - length out) chunk"
      using Cons.prems cut by simp
    with True over rem show ?thesis by simp
  next
    case False
    then have fits: "int (length (out @ chunk)) \<le> capBytes" by simp
    from False Cons.IH [OF Cons.prems(1) fits] show ?thesis
      by (simp add: add.assoc)
  qed
qed

lemma capJoin_budget:
  "0 \<le> capBytes \<Longrightarrow>
   capJoin chunks capBytes =
     (if int (length (concat chunks)) \<le> capBytes then concat chunks
      else take (nat capBytes) (concat chunks) @ marker)"
  using capJoin_loop_budget [of capBytes "[]" chunks] by (simp add: capJoin_def)

lemma capJoin_length_bound:
  "0 \<le> capBytes \<Longrightarrow> int (length (capJoin chunks capBytes)) \<le> capBytes + int (length marker)"
  by (simp add: capJoin_budget)

lemma capJoin_cut_at:
  assumes "0 \<le> capBytes"
    and "int (length (concat pre)) \<le> capBytes"
    and "capBytes < int (length (concat pre) + length c)"
  shows "capJoin (pre @ c # post) capBytes =
           concat pre @ take (nat capBytes - length (concat pre)) c @ marker"
proof -
  from assms have "nat capBytes - length (concat pre) < length c" by linarith
  with assms show ?thesis by (simp add: capJoin_budget)
qed

lemma concat_run_chunks: "concat (run_chunks res) = stdout res @ stderr res"
  by (simp add: run_chunks_def)

lemma capJoin_within_budget:
  "int (length (concat chunks)) \<le> capBytes \<Longrightarrow> capJoin chunks capBytes = concat chunks"
proof -
  assume fits: "int (length (concat chunks)) \<le> capBytes"
  then have "0 \<le> capBytes" by linarith
  with fits show ?thesis by (simp add: capJoin_budget)
qed

lemma marker_not_empty: "marker \<noteq> []"
  by (simp add: marker_def)

lemma result_message_truncated:
  assumes "0 \<le> nullish_cap cap"
    and "nullish_cap cap < int (length (stdout res @ stderr res))"
  shows "result_message res cap =
           [(''type'', JStr (ascii ''result'')),
            (''ok'', JBool (ok res)),
            (''output'', JStr (take (nat (nullish_cap cap)) (stdout res @ stderr res) @ marker))]"
proof -
  from assms have "capJoin (run_chunks res) (nullish_cap cap) =
      take (nat (nullish_cap cap)) (stdout res @ stderr res) @ marker"
    by (simp add: capJoin_budget concat_run_chunks)
  then show ?thesis
    by (simp add: result_message_def marker_not_empty)
qed

lemma result_message_within_budget:
  assumes "int (length (stdout res @ stderr res)) \<le> nullish_cap cap"
  shows "result_message res cap =
           [(''type'', JStr (ascii ''result'')),
            (''ok'', JBool (ok res)),
            (''output'', JStr (if stdout res @ stderr res = [] then ascii ''(no output)''
                               else stdout res @ stderr res))]"
proof -
  from assms have "capJoin (run_chunks res) (nullish_cap cap) = stdout res @ stderr res"
    using capJoin_within_budget [of "run_chunks res" "nullish_cap cap"]
    by (simp add: concat_run_chunks)
  then show ?thesis
    by (simp add: result_message_def)
qed

lemma result_message_no_field:
  "k \<noteq> ''type'' \<Longrightarrow> k \<noteq> ''ok'' \<Longrightarrow> k \<noteq> ''output'' \<Longrightarrow> get_prop (result_message res cap) k = JUndefined"
  by (simp add: result_message_def get_prop_def Let_def)

section \<open>Properties of the handlers\<close>

lemma get_prop_run_request:
  "get_prop (run_request c cap) ''type'' = JStr (ascii ''run'')"
  "get_prop (run_request c cap) ''code'' = JStr c"
  "get_prop (run_request c cap) ''capBytes'' = JNum cap"
  by (simp_all add: run_request_def get_prop_def)

lemma get_prop_result_message:
  "get_prop (result_message res cap) ''type'' = JStr (ascii ''result'')"
  "get_prop (result_message res cap) ''ok'' = JBool (ok res)"
  by (simp_all add: result_message_def get_prop_def Let_def)

lemma ascii_tags_distinct:
  "ascii ''run'' \<noteq> ascii ''init''"
  "ascii ''result'' \<noteq> ascii ''ready''"
  "ascii ''result'' \<noteq> ascii ''fatal''"
  "ascii ''fatal'' \<noteq> ascii ''ready''"
  by (simp_all add: ascii_def)

lemma finishRun_fields:
  "running (finishRun s) = False"
  "pyStatus_class (finishRun s) = pyStatus_class s"
  "worker (finishRun s) = worker s"
  "terminated (finishRun s) = terminated s"
  "workers_created (finishRun s) = workers_created s"
  "shown (finishRun s) = shown s"
  "posted (finishRun s) = posted s"
  by (simp_all add: finishRun_def clearTimeout_def Let_def split: option.split)

lemma worker_onmessage_result:
  assumes "get_prop m ''type'' = JStr (ascii ''result'')"
  shows "worker_onmessage m s = setOutput (ResultText (get_prop m ''output'')) (finishRun s)"
  using assms by (simp add: worker_onmessage_def ascii_tags_distinct)

lemma setOutput_fields:
  "outputEl (setOutput t s) = t"
  "running (setOutput t s) = running s"
  "pyStatus_class (setOutput t s) = pyStatus_class s"
  "worker (setOutput t s) = worker s"
  "terminated (setOutput t s) = terminated s"
  "workers_created (setOutput t s) = workers_created s"
  by (simp_all add: setOutput_def)

lemma ensureWorker_none:
  "worker s = None \<Longrightarrow>
   ensureWorker s =
     (workers_created s,
      postMessage (workers_created s) init_message
        ((setStatus ''loading'' (ascii ''Loading Python'' @ [0x2026])
            (s\<lparr>worker := Some (workers_created s), workers_created := Suc (workers_created s)\<rparr>))
         \<lparr>runBtn_disabled := True, stopBtn_disabled := True\<rparr>))"
  by (simp add: ensureWorker_def Let_def)

lemma ensureWorker_some: "worker s = Some w \<Longrightarrow> ensureWorker s = (w, s)"
  by (simp add: ensureWorker_def)

lemma restart_fields:
  "worker (snd (ensureWorker (killWorker s))) = Some (workers_created s)"
  "workers_created (snd (ensureWorker (killWorker s))) = Suc (workers_created s)"
  "terminated (snd (ensureWorker (killWorker s))) =
     (case worker s of Some w \<Rightarrow> w # terminated s | None \<Rightarrow> terminated s)"
  "pyStatus_class (snd (ensureWorker (killWorker s))) = StatusLoading"
  "running (snd (ensureWorker (killWorker s))) = running s"
  by (simp_all add: ensureWorker_def killWorker_def setStatus_def postMessage_def Let_def
      split: option.split)

lemma setStatus_fields:
  "worker (setStatus k t s) = worker s"
  "workers_created (setStatus k t s) = workers_created s"
  "terminated (setStatus k t s) = terminated s"
  "running (setStatus k t s) = running s"
  "pyStatus_class (setStatus ''ready'' t s) = StatusReady"
  "pyStatus_class (setStatus ''error'' t s) = StatusError"
  by (simp_all add: setStatus_def)

lemma on_timeout_fields:
  "worker (on_timeout ms s) = Some (workers_created s)"
  "workers_created (on_timeout ms s) = Suc (workers_created s)"
  "terminated (on_timeout ms s) =
     (case worker s of Some w \<Rightarrow> w # terminated s | None \<Rightarrow> terminated s)"
  "pyStatus_class (on_timeout ms s) = StatusLoading"
  "running (on_timeout ms s) = False"
  by (simp_all add: on_timeout_def Let_def finishRun_fields restart_fields setStatus_fields
      setOutput_fields split: option.split)

lemma stopCode_fields:
  assumes "running s"
  shows "worker (stopCode s) = Some (workers_created s)"
    and "workers_created (stopCode s) = Suc (workers_created s)"
    and "terminated (stopCode s) =
           (case worker s of Some w \<Rightarrow> w # terminated s | None \<Rightarrow> terminated s)"
    and "pyStatus_class (stopCode s) = StatusLoading"
    and "running (stopCode s) = False"
  using assms
  by (simp_all add: stopCode_def Let_def finishRun_fields restart_fields setStatus_fields
      setOutput_fields split: option.split)

lemma runCode_submits:
  assumes "worker s = Some w" and "trim (codeEditor s) \<noteq> []"
  shows "running (runCode s)"
    and "pyStatus_class (runCode s) = pyStatus_class s"
    and "worker (runCode s) = Some w"
    and "workers_created (runCode s) = workers_created s"
    and "terminated (runCode s) = terminated s"
    and "posted (runCode s) =
           posted s @ [(w, run_request (codeEditor s)
                             (case capSelect s of None \<Rightarrow> 16000 | Some n \<Rightarrow> n))]"
  using assms
  by (simp_all add: runCode_def ensureWorker_some startRun_def setOutput_def setTimeout_def
      postMessage_def Let_def)

lemma runCode_blank:
  "trim (codeEditor s) = [] \<Longrightarrow> posted (runCode s) = posted s \<and> timers (runCode s) = timers s"
  by (simp add: runCode_def setOutput_def)

lemma worker_onmessage_ready:
  "pyStatus_class (worker_onmessage ready_message s) = StatusReady"
  by (simp add: worker_onmessage_def ready_message_def get_prop_def setStatus_def)

lemma worker_onmessage_fatal:
  "pyStatus_class (worker_onmessage (fatal_message e) s) = StatusError"
  by (simp add: worker_onmessage_def fatal_message_def get_prop_def setStatus_def setOutput_def
      ascii_tags_distinct Let_def)

lemma worker_onerror_fields:
  "pyStatus_class (worker_onerror e s) = StatusError"
  "running (worker_onerror e s) = False"
  by (simp_all add: worker_onerror_def setOutput_fields setStatus_fields finishRun_fields)



lemma result_message_fields: "map fst (result_message res cap) = [''type'', ''ok'', ''output'']"
  by (simp add: result_message_def Let_def)




lemmas session_steps =
  run_events_def boot_def page_def ensureWorker_def killWorker_def setOutput_def setStatus_def
  postMessage_def setTimeout_def clearTimeout_def startRun_def finishRun_def runCode_def
  stopCode_def on_timeout_def worker_onmessage_def worker_onerror_def trim_def is_space_def
  get_prop_def ready_message_def fatal_message_def init_message_def run_request_def
  result_message_def run_chunks_def capJoin_def nullish_cap_def outcomes_def run_requests_def
  ascii_def Let_def

section \<open>The claims on the output capper\<close>

text \<open>
  Claim C3, for a budget that is not negative. The string \<open>capJoin\<close> returns is at most
  \<open>capBytes\<close> plus the length of the marker long. The chunks are joined in order: when
  the chunks \<open>pre\<close> fit and the next chunk \<open>c\<close> does not, the result is \<open>pre\<close> joined,
  then \<open>c\<close> cut to what is left of the budget, then the marker, and the chunks \<open>post\<close>
  after it do not appear. The chunks of a run are its standard output, then its
  standard error.
\<close>

theorem C3_capped_output_bound:
  assumes "0 \<le> capBytes"
  shows "int (length (capJoin chunks capBytes)) \<le> capBytes + int (length marker) \<and>
         (int (length (concat pre)) \<le> capBytes \<and>
          capBytes < int (length (concat pre) + length c) \<longrightarrow>
            capJoin (pre @ c # post) capBytes =
              concat pre @ take (nat capBytes - length (concat pre)) c @ marker) \<and>
         concat (run_chunks res) = stdout res @ stderr res"
proof (intro conjI impI)
  show "int (length (capJoin chunks capBytes)) \<le> capBytes + int (length marker)"
    using assms by (rule capJoin_length_bound)
next
  assume "int (length (concat pre)) \<le> capBytes \<and>
          capBytes < int (length (concat pre) + length c)"
  with assms show "capJoin (pre @ c # post) capBytes =
      concat pre @ take (nat capBytes - length (concat pre)) c @ marker"
    by (simp add: capJoin_cut_at)
next
  show "concat (run_chunks res) = stdout res @ stderr res"
    by (rule concat_run_chunks)
qed

text \<open>The bound and the cut of C3 on three chunks and a budget of 8.\<close>

theorem C3_capped_output_bound_witness:
  "int (length (capJoin [ascii ''hello '', ascii ''world'', ascii ''!''] 8))
     \<le> 8 + int (length marker) \<and>
   capJoin ([ascii ''hello ''] @ ascii ''world'' # [ascii ''!'']) 8 =
     ascii ''hello wo'' @ marker \<and>
   concat (run_chunks \<lparr>ok = True, stdout = ascii ''out'', stderr = ascii ''err''\<rparr>) =
     ascii ''outerr''"
  using C3_capped_output_bound [of 8 "[ascii ''hello '', ascii ''world'', ascii ''!'']"
      "[ascii ''hello '']" "ascii ''world''" "[ascii ''!'']"
      "\<lparr>ok = True, stdout = ascii ''out'', stderr = ascii ''err''\<rparr>"]
  by (simp add: ascii_def)

text \<open>
  C3 as stated, for every \<open>capBytes\<close>, fails below zero: with the budget \<open>-1\<close> and one
  chunk of one character, \<open>Math.max(0, ...)\<close> keeps nothing of the chunk and the marker
  alone is returned, 21 characters against a bound of 20.
\<close>

theorem C3_negative_budget_counterexample:
  "\<not> int (length (capJoin [ascii ''a''] (- 1))) \<le> - 1 + int (length marker)"
  by (simp add: capJoin_def length_marker)

text \<open>
  Claim C4, without the flag. When the chunks together stay within the budget,
  \<open>capJoin\<close> returns their concatenation, unchanged and with no marker. It returns the
  string alone, and the result message built from it has no property \<open>truncated\<close>.
\<close>

theorem C4_within_budget:
  assumes "int (length (concat chunks)) \<le> capBytes"
  shows "capJoin chunks capBytes = concat chunks \<and>
         get_prop (result_message res cap) ''truncated'' = JUndefined"
  using assms by (simp add: capJoin_within_budget result_message_no_field)

text \<open>C4 on two chunks that fill a budget of 4 exactly.\<close>

theorem C4_within_budget_witness:
  "capJoin [ascii ''ab'', ascii ''cd''] 4 = ascii ''abcd'' \<and>
   get_prop (result_message \<lparr>ok = True, stdout = ascii ''ab'', stderr = ascii ''cd''\<rparr> (Some 4))
     ''truncated'' = JUndefined"
  using C4_within_budget [of "[ascii ''ab'', ascii ''cd'']" 4
      "\<lparr>ok = True, stdout = ascii ''ab'', stderr = ascii ''cd''\<rparr>" "Some 4"]
  by (simp add: ascii_def)

text \<open>
  C4 as stated has the capper report \<open>truncated = false\<close>: for a run that prints two
  characters under a budget of 10, the result message says nothing of the kind.
\<close>

theorem C4_no_flag_counterexample:
  "get_prop (result_message \<lparr>ok = True, stdout = ascii ''hi'', stderr = []\<rparr> (Some 10))
     ''truncated'' \<noteq> JBool False"
  by (simp add: result_message_no_field)

text \<open>
  Claim C5, as the code has it. \<open>capJoin\<close> returns one string and no flag, and the
  result message has the three properties \<open>type\<close>, \<open>ok\<close> and \<open>output\<close> and no other.
  When the chunks given to \<open>capJoin\<close> are together longer than a budget that is not
  negative, the string it returns ends with the marker: the marker is the only sign of
  truncation.
\<close>

theorem C5_truncation_marked:
  assumes "0 \<le> capBytes"
    and "capBytes < int (length (concat chunks))"
  shows "suffix marker (capJoin chunks capBytes) \<and>
         map fst (result_message res cap) = [''type'', ''ok'', ''output''] \<and>
         get_prop (result_message res cap) ''truncated'' = JUndefined"
proof -
  from assms have "capJoin chunks capBytes = take (nat capBytes) (concat chunks) @ marker"
    by (simp add: capJoin_budget)
  then have "suffix marker (capJoin chunks capBytes)"
    by (simp add: suffix_def)
  then show ?thesis
    by (simp add: result_message_fields result_message_no_field)
qed

text \<open>C5 on eleven characters in two chunks under a budget of 4.\<close>

theorem C5_truncation_marked_witness:
  "suffix marker (capJoin [ascii ''0123456789'', ascii ''E''] 4) \<and>
   capJoin [ascii ''0123456789'', ascii ''E''] 4 = ascii ''0123'' @ marker \<and>
   map fst (result_message \<lparr>ok = True, stdout = ascii ''0123456789'', stderr = ascii ''E''\<rparr> (Some 4)) =
     [''type'', ''ok'', ''output'']"
proof -
  have cut: "capJoin [ascii ''0123456789'', ascii ''E''] 4 = ascii ''0123'' @ marker"
    by (simp add: capJoin_def ascii_def)
  from C5_truncation_marked [of 4 "[ascii ''0123456789'', ascii ''E'']"
      "\<lparr>ok = True, stdout = ascii ''0123456789'', stderr = ascii ''E''\<rparr>" "Some 4"] cut
  show ?thesis by (simp add: ascii_def)
qed

text \<open>
  C5 as stated has the result delivered report \<open>truncated = true\<close>: the message the
  handler builds from the dictionary of a run that printed ten characters, under a
  budget of 4, has no such property.
\<close>

theorem C5_no_flag_counterexample:
  "get_prop
     (result_message
        (read_result
           (toJs \<lparr>dict_ok = True, dict_stdout = ascii ''0123456789'', dict_stderr = []\<rparr>))
        (Some 4))
     ''truncated'' \<noteq> JBool True"
  by (simp add: result_message_no_field)

text \<open>
  Claim C10, for a budget that is not negative. When the chunks together are longer than
  \<open>capBytes\<close>, \<open>capJoin\<close> returns exactly the first \<open>capBytes\<close> characters of their
  concatenation followed by the marker: its length is \<open>capBytes\<close> plus the length of the
  marker, and what is kept is a prefix of the uncapped output.
\<close>

theorem C10_exact_prefix:
  assumes "0 \<le> capBytes"
    and "capBytes < int (length (concat chunks))"
  shows "capJoin chunks capBytes = take (nat capBytes) (concat chunks) @ marker \<and>
         int (length (capJoin chunks capBytes)) = capBytes + int (length marker) \<and>
         prefix (take (nat capBytes) (concat chunks)) (concat chunks)"
proof -
  from assms have out: "capJoin chunks capBytes = take (nat capBytes) (concat chunks) @ marker"
    by (simp add: capJoin_budget)
  from assms have "length (take (nat capBytes) (concat chunks)) = nat capBytes"
    by simp
  with assms out have "int (length (capJoin chunks capBytes)) = capBytes + int (length marker)"
    by simp
  with out show ?thesis
    by (simp add: take_is_prefix)
qed

text \<open>C10 on a cut inside the second chunk, and on the budget 0, where only the marker is left.\<close>

theorem C10_exact_prefix_witness:
  "capJoin [ascii ''ab'', ascii ''cd'', ascii ''ef''] 3 = ascii ''abc'' @ marker \<and>
   capJoin [ascii ''x''] 0 = marker"
  using C10_exact_prefix [of 3 "[ascii ''ab'', ascii ''cd'', ascii ''ef'']"]
    C10_exact_prefix [of 0 "[ascii ''x'']"]
  by (simp add: ascii_def)

text \<open>
  C10 as stated fails below zero. No chunks at all are longer than \<open>-1\<close>, and the
  result is the empty string, with no marker; one chunk of two characters under the
  budget \<open>-2\<close> gives the marker alone, 21 characters and not 19.
\<close>

theorem C10_negative_budget_counterexample:
  "- 1 < int (length (concat ([] :: jsstring list))) \<and>
   capJoin [] (- 1) \<noteq> take (nat (- 1)) (concat []) @ marker \<and>
   - 2 < int (length (concat [ascii ''ab''])) \<and>
   int (length (capJoin [ascii ''ab''] (- 2))) \<noteq> - 2 + int (length marker)"
  by (simp add: capJoin_def length_marker marker_def)

section \<open>The claims on the worker\<close>







section \<open>The claims on the session\<close>




text \<open>
  Claim C2 at the input where the code breaks it. The shortcut runs \<open>runCode\<close> while a
  run is outstanding; the second call overwrites \<open>runTimeout\<close> and the first timer
  stays set. When both results arrive and the first timer then fires, two run requests
  have three outcomes; when the first timer fires before any result, the two run
  requests have one outcome, and nothing is left to give another: no timer is set and
  the worker is terminated.
\<close>

theorem C2_outcomes_of_two_submissions:
  "length (run_requests
     (run_events [KeyCtrlEnter, KeyCtrlEnter, WorkerPosts 0 one_printed, WorkerPosts 0 one_printed,
        TimerFires 1] ready_session)) = 2 \<and>
   outcomes
     (run_events [KeyCtrlEnter, KeyCtrlEnter, WorkerPosts 0 one_printed, WorkerPosts 0 one_printed,
        TimerFires 1] ready_session) =
     [ResultText (JStr (ascii ''1'')), ResultText (JStr (ascii ''1'')), TimedOut 3000] \<and>
   length (run_requests (run_events [KeyCtrlEnter, KeyCtrlEnter, TimerFires 1] ready_session)) = 2 \<and>
   outcomes (run_events [KeyCtrlEnter, KeyCtrlEnter, TimerFires 1] ready_session) =
     [TimedOut 3000] \<and>
   timers (run_events [KeyCtrlEnter, KeyCtrlEnter, TimerFires 1] ready_session) = [] \<and>
   terminated (run_events [KeyCtrlEnter, KeyCtrlEnter, TimerFires 1] ready_session) = [0]"
  by (simp add: one_printed_def ready_session_def session_steps)

text \<open>
  Claim C6 at the input where the code breaks it. After a click on Run the run button is
  disabled and a second click does nothing, but the shortcut posts a second run request
  and sets a second timer. The shortcut also posts a run request while the first worker
  is still loading. With only white space in the editor it posts nothing.
\<close>

theorem C6_shortcut_submits_while_running:
  "running (dispatch ClickRun ready_session) \<and>
   runBtn_disabled (dispatch ClickRun ready_session) \<and>
   length (run_requests (dispatch ClickRun ready_session)) = 1 \<and>
   dispatch ClickRun (dispatch ClickRun ready_session) = dispatch ClickRun ready_session \<and>
   length (run_requests (dispatch KeyCtrlEnter (dispatch ClickRun ready_session))) = 2 \<and>
   timers (dispatch KeyCtrlEnter (dispatch ClickRun ready_session)) = [(1, 3000), (2, 3000)] \<and>
   runTimeout (dispatch KeyCtrlEnter (dispatch ClickRun ready_session)) = Some 2 \<and>
   pyStatus_class (boot (ascii ''print(1)'') page) = StatusLoading \<and>
   length (run_requests (dispatch KeyCtrlEnter (boot (ascii ''print(1)'') page))) = 1 \<and>
   run_requests (dispatch KeyCtrlEnter (dispatch (Edit (ascii ''  '')) ready_session)) = []"
  by (simp add: ready_session_def session_steps)

text \<open>
  Claim C9, as the code has it. The status has the three values Loading, Ready and Error.
  A submit leaves it as it is and sets the flag \<open>running\<close>; a result clears \<open>running\<close>
  and leaves the status as it is; a timeout or a stop clears \<open>running\<close> and ends in
  Loading, from where \<open>ready\<close> gives Ready and \<open>fatal\<close> gives Error; an error event of
  the worker during the run clears \<open>running\<close> and gives Error.
\<close>

theorem C9_status_transitions:
  assumes "worker s = Some w" and "trim (codeEditor s) \<noteq> []"
  shows "pyStatus_class (runCode s) = pyStatus_class s \<and> running (runCode s) \<and>
         pyStatus_class (worker_onmessage (result_message res cap) (runCode s)) = pyStatus_class s \<and>
         \<not> running (worker_onmessage (result_message res cap) (runCode s)) \<and>
         pyStatus_class (on_timeout ms (runCode s)) = StatusLoading \<and>
         \<not> running (on_timeout ms (runCode s)) \<and>
         pyStatus_class (stopCode (runCode s)) = StatusLoading \<and>
         \<not> running (stopCode (runCode s)) \<and>
         pyStatus_class (worker_onmessage ready_message (on_timeout ms (runCode s))) = StatusReady \<and>
         pyStatus_class (worker_onmessage (fatal_message e) (on_timeout ms (runCode s))) = StatusError \<and>
         pyStatus_class (worker_onerror e (runCode s)) = StatusError \<and>
         \<not> running (worker_onerror e (runCode s))"
proof -
  have submit: "pyStatus_class (runCode s) = pyStatus_class s" "running (runCode s)"
    using assms by (rule runCode_submits)+
  have result: "pyStatus_class (worker_onmessage (result_message res cap) (runCode s)) =
        pyStatus_class s"
      "\<not> running (worker_onmessage (result_message res cap) (runCode s))"
    using submit(1)
    by (simp_all add: worker_onmessage_result get_prop_result_message setOutput_fields
        finishRun_fields)
  have stop: "pyStatus_class (stopCode (runCode s)) = StatusLoading"
      "\<not> running (stopCode (runCode s))"
    using submit(2) by (simp_all add: stopCode_fields)
  from submit result stop show ?thesis
    by (simp add: on_timeout_fields worker_onmessage_ready worker_onmessage_fatal
        worker_onerror_fields)
qed

text \<open>C9 on the first run of the ready session.\<close>

theorem C9_status_transitions_witness:
  "pyStatus_class ready_session = StatusReady \<and>
   pyStatus_class (runCode ready_session) = StatusReady \<and> running (runCode ready_session) \<and>
   pyStatus_class
     (worker_onmessage (result_message \<lparr>ok = True, stdout = ascii ''1'', stderr = []\<rparr> (Some 16000))
        (runCode ready_session)) = StatusReady \<and>
   pyStatus_class (on_timeout 3000 (runCode ready_session)) = StatusLoading \<and>
   pyStatus_class (stopCode (runCode ready_session)) = StatusLoading \<and>
   pyStatus_class (worker_onmessage ready_message (on_timeout 3000 (runCode ready_session))) =
     StatusReady \<and>
   pyStatus_class
     (worker_onmessage (fatal_message (ascii ''Error: load failed''))
        (on_timeout 3000 (runCode ready_session))) = StatusError"
proof -
  have w: "worker ready_session = Some 0"
    by (simp add: ready_session_def session_steps)
  have c: "trim (codeEditor ready_session) \<noteq> []"
    by (simp add: ready_session_def session_steps)
  have r: "pyStatus_class ready_session = StatusReady"
    by (simp add: ready_session_def session_steps)
  from r C9_status_transitions [OF w c, of "\<lparr>ok = True, stdout = ascii ''1'', stderr = []\<rparr>"
      "Some 16000" 3000 "ascii ''Error: load failed''"]
  show ?thesis by simp
qed

text \<open>
  C9 as stated has a Running status while a run is outstanding, and no transition
  outside the declared ones: after a submit in the ready session the run is outstanding
  and the status is still Ready, and an error event of the worker takes it from there to
  Error.
\<close>

theorem C9_no_running_status_counterexample:
  "running (runCode ready_session) \<and>
   pyStatus_class (runCode ready_session) = StatusReady \<and>
   pyStatus_class (dispatch (WorkerFails 0 (ascii ''Error'')) (runCode ready_session)) = StatusError"
  by (simp add: ready_session_def session_steps)

end
